theory Spec2Isabelle
  imports Main "HOL-Library.Word" "HOL-Library.Code_Target_Numeral"
begin

unbundle bit_operations_syntax

section \<open>Magic-link strategy: the data of \<^verbatim>\<open>src/index.ts\<close>\<close>

text \<open>
  The repository is one class, \<^verbatim>\<open>MagicLinkStrategy\<close>, whose method
  \<^verbatim>\<open>authenticate\<close> either issues a signed token for a submitted form or
  verifies a token that comes back with its key. The method is a thin layer over three
  libraries: \<^verbatim>\<open>node:crypto\<close> (random bytes), Node's \<^verbatim>\<open>Buffer\<close>
  (base64url) and \<^verbatim>\<open>jose\<close> (\<^verbatim>\<open>SignJWT\<close>, \<^verbatim>\<open>jwtVerify\<close>).
  The method itself is translated from the source line by line; the library calls it makes
  are modelled from the libraries' documented behaviour, each in a definition of its own
  that says so.
\<close>

type_synonym byte = "8 word"

subsection \<open>Errors\<close>

text \<open>
  Every \<^verbatim>\<open>throw\<close> and every rejected promise is a value of this type.
  \<^verbatim>\<open>Error\<close> is what \<^verbatim>\<open>authenticate\<close> throws itself, with its message.
  The others are the classes the libraries throw: \<^verbatim>\<open>TypeError\<close> (a body that
  is not form data, a key of the wrong kind for the algorithm), \<^verbatim>\<open>DataError\<close>
  (Web Crypto refuses an HMAC key of length zero), and jose's \<^verbatim>\<open>JWSInvalid\<close>,
  \<^verbatim>\<open>JOSENotSupported\<close> (an algorithm jose does not implement),
  \<^verbatim>\<open>JWSSignatureVerificationFailed\<close>, \<^verbatim>\<open>JWTClaimValidationFailed\<close>
  and \<^verbatim>\<open>JWTExpired\<close>; the last two carry jose's \<^verbatim>\<open>claim\<close> and
  \<^verbatim>\<open>reason\<close> fields.
  \<^verbatim>\<open>CallbackError\<close> is whatever the caller's verify function throws.
\<close>

datatype error =
    Error string
  | TypeError
  | DataError
  | JWSInvalid
  | JOSENotSupported
  | JWSSignatureVerificationFailed
  | JWTClaimValidationFailed string string
  | JWTExpired string string
  | CallbackError string

subsection \<open>Base64url, as \<^verbatim>\<open>Buffer\<close> does it\<close>

text \<open>
  Node's \<^verbatim>\<open>buf.toString("base64url")\<close> writes three bytes as four characters
  of the URL-safe alphabet and leaves the padding out.
  \<^verbatim>\<open>Buffer.from(s, "base64url")\<close> is lenient, as Node documents: it accepts the
  characters of both alphabets (\<^verbatim>\<open>+\<close> for \<^verbatim>\<open>-\<close>, \<^verbatim>\<open>/\<close> for
  \<^verbatim>\<open>_\<close>), skips every character that is in neither, stops at the first
  \<^verbatim>\<open>=\<close>, and drops a last group of one character.
\<close>

definition base64url_alphabet :: string where
  "base64url_alphabet =
     ''ABCDEFGHIJKLMNOPQRSTUVWXYZabcdefghijklmnopqrstuvwxyz0123456789-_''"

fun sextets_of_bytes :: "byte list \<Rightarrow> nat list" where
  "sextets_of_bytes (a # b # c # bs) =
     [unat a div 4, (unat a mod 4) * 16 + unat b div 16,
      (unat b mod 16) * 4 + unat c div 64, unat c mod 64] @ sextets_of_bytes bs"
| "sextets_of_bytes [a, b] =
     [unat a div 4, (unat a mod 4) * 16 + unat b div 16, (unat b mod 16) * 4]"
| "sextets_of_bytes [a] = [unat a div 4, (unat a mod 4) * 16]"
| "sextets_of_bytes [] = []"

definition toString_base64url :: "byte list \<Rightarrow> string" where
  "toString_base64url bs = map (\<lambda>s. base64url_alphabet ! s) (sextets_of_bytes bs)"

definition unbase64 :: "char \<Rightarrow> nat option" where
  "unbase64 c =
     (if c = CHR ''+'' then Some 62
      else if c = CHR ''/'' then Some 63
      else map_of (zip base64url_alphabet [0..<64]) c)"

fun bytes_of_sextets :: "nat list \<Rightarrow> byte list" where
  "bytes_of_sextets (s1 # s2 # s3 # s4 # ss) =
     [of_nat (s1 * 4 + s2 div 16), of_nat ((s2 mod 16) * 16 + s3 div 4),
      of_nat ((s3 mod 4) * 64 + s4)] @ bytes_of_sextets ss"
| "bytes_of_sextets [s1, s2, s3] =
     [of_nat (s1 * 4 + s2 div 16), of_nat ((s2 mod 16) * 16 + s3 div 4)]"
| "bytes_of_sextets [s1, s2] = [of_nat (s1 * 4 + s2 div 16)]"
| "bytes_of_sextets [s1] = []"
| "bytes_of_sextets [] = []"

definition Buffer_from_base64url :: "string \<Rightarrow> byte list" where
  "Buffer_from_base64url s =
     bytes_of_sextets (List.map_filter unbase64 (takeWhile (\<lambda>c. c \<noteq> CHR ''='') s))"


subsection \<open>SHA-2\<close>

text \<open>
  The hash functions of the HMAC algorithms, after FIPS 180-4: SHA-256 on 32-bit words,
  SHA-512 and SHA-384 on 64-bit words. HMAC needs them for keys that are longer than a
  block. A message is padded with the byte \<^verbatim>\<open>0x80\<close>, zero bytes and its length
  in bits, cut into blocks of sixteen words, and each block is compressed into the eight
  words of the state; words are big-endian.
\<close>

definition Ch :: "'a::len word \<Rightarrow> 'a word \<Rightarrow> 'a word \<Rightarrow> 'a word" where
  "Ch x y z = (x AND y) XOR (NOT x AND z)"

definition Maj :: "'a::len word \<Rightarrow> 'a word \<Rightarrow> 'a word \<Rightarrow> 'a word" where
  "Maj x y z = (x AND y) XOR (x AND z) XOR (y AND z)"

definition Sigma :: "nat \<Rightarrow> nat \<Rightarrow> nat \<Rightarrow> 'a::len word \<Rightarrow> 'a word" where
  "Sigma r1 r2 r3 x = word_rotr r1 x XOR word_rotr r2 x XOR word_rotr r3 x"

definition sigma :: "nat \<Rightarrow> nat \<Rightarrow> nat \<Rightarrow> 'a::len word \<Rightarrow> 'a word" where
  "sigma r1 r2 s x = word_rotr r1 x XOR word_rotr r2 x XOR drop_bit s x"

text \<open>
  The constants are the first bits of the fractional parts of roots of primes: the round
  constants of the cube roots of the first 64 (SHA-256) or 80 (SHA-512) primes, the initial
  state of the square roots of the first eight primes (SHA-256, SHA-512) or of the ninth to
  sixteenth (SHA-384).
\<close>

definition is_prime :: "nat \<Rightarrow> bool" where
  "is_prime n = (1 < n \<and> list_all (\<lambda>d. n mod d \<noteq> 0) [2..<n])"

fun floor_root :: "nat \<Rightarrow> nat \<Rightarrow> nat \<Rightarrow> nat \<Rightarrow> nat" where
  "floor_root k n 0 r = r"
| "floor_root k n (Suc i) r =
     (if (r + 2 ^ i) ^ k \<le> n then floor_root k n i (r + 2 ^ i) else floor_root k n i r)"

definition root_fraction :: "nat \<Rightarrow> nat \<Rightarrow> 'a::len word" where
  "root_fraction k p =
     of_nat (floor_root k (p * 2 ^ (k * LENGTH('a))) (LENGTH('a) + 8) 0)"

definition K256 :: "32 word list" where
  "K256 = map (root_fraction 3) (filter is_prime [2..<312])"

definition H256 :: "32 word list" where
  "H256 = map (root_fraction 2) [2, 3, 5, 7, 11, 13, 17, 19]"

definition K512 :: "64 word list" where
  "K512 = map (root_fraction 3) (filter is_prime [2..<410])"

definition H512 :: "64 word list" where
  "H512 = map (root_fraction 2) [2, 3, 5, 7, 11, 13, 17, 19]"

definition H384 :: "64 word list" where
  "H384 = map (root_fraction 2) [23, 29, 31, 37, 41, 43, 47, 53]"

definition be_bytes :: "nat \<Rightarrow> nat \<Rightarrow> byte list" where
  "be_bytes n x = map (\<lambda>i. of_nat (x div 256 ^ (n - 1 - i))) [0..<n]"

definition word_of_bytes :: "byte list \<Rightarrow> 'a::len word" where
  "word_of_bytes bs = of_nat (foldl (\<lambda>acc b. acc * 256 + unat b) 0 bs)"

definition chunks :: "nat \<Rightarrow> 'b list \<Rightarrow> 'b list list" where
  "chunks n xs = map (\<lambda>i. take n (drop (i * n) xs)) [0..<length xs div n]"

definition sha2_pad :: "nat \<Rightarrow> byte list \<Rightarrow> byte list" where
  "sha2_pad wb m =
     m @ [0x80] @ replicate ((16 * wb - (length m + 1 + 2 * wb) mod (16 * wb)) mod (16 * wb)) 0
       @ be_bytes (2 * wb) (8 * length m)"

fun schedule ::
  "('a::len word \<Rightarrow> 'a word) \<Rightarrow> ('a word \<Rightarrow> 'a word) \<Rightarrow> nat \<Rightarrow> 'a word list \<Rightarrow> 'a word list" where
  "schedule s0 s1 0 ws = ws"
| "schedule s0 s1 (Suc n) ws =
     schedule s0 s1 n
       (ws @ [s1 (ws ! (length ws - 2)) + ws ! (length ws - 7)
              + s0 (ws ! (length ws - 15)) + ws ! (length ws - 16)])"

fun sha2_round ::
  "('a::len word \<Rightarrow> 'a word) \<Rightarrow> ('a word \<Rightarrow> 'a word) \<Rightarrow> 'a word list \<Rightarrow> 'a word \<times> 'a word
     \<Rightarrow> 'a word list" where
  "sha2_round S0 S1 [a, b, c, d, e, f, g, h] (k, w) =
     (let t1 = h + S1 e + Ch e f g + k + w;
          t2 = S0 a + Maj a b c
      in [t1 + t2, a, b, c, d + t1, e, f, g])"
| "sha2_round S0 S1 st kw = st"

definition sha2_compress ::
  "('a::len word \<Rightarrow> 'a word) \<Rightarrow> ('a word \<Rightarrow> 'a word) \<Rightarrow> ('a word \<Rightarrow> 'a word) \<Rightarrow> ('a word \<Rightarrow> 'a word)
     \<Rightarrow> 'a word list \<Rightarrow> 'a word list \<Rightarrow> byte list \<Rightarrow> 'a word list" where
  "sha2_compress S0 S1 s0 s1 K hs block =
     map2 (+) hs
       (foldl (sha2_round S0 S1) hs
          (zip K (schedule s0 s1 (length K - 16)
                    (map word_of_bytes (chunks (LENGTH('a) div 8) block)))))"

definition sha2 ::
  "('a::len word \<Rightarrow> 'a word) \<Rightarrow> ('a word \<Rightarrow> 'a word) \<Rightarrow> ('a word \<Rightarrow> 'a word) \<Rightarrow> ('a word \<Rightarrow> 'a word)
     \<Rightarrow> 'a word list \<Rightarrow> 'a word list \<Rightarrow> byte list \<Rightarrow> byte list" where
  "sha2 S0 S1 s0 s1 K H m =
     concat (map (\<lambda>w. be_bytes (LENGTH('a) div 8) (unat w))
       (foldl (sha2_compress S0 S1 s0 s1 K) H
          (chunks (16 * (LENGTH('a) div 8)) (sha2_pad (LENGTH('a) div 8) m))))"

definition sha256 :: "byte list \<Rightarrow> byte list" where
  "sha256 m = sha2 (Sigma 2 13 22) (Sigma 6 11 25) (sigma 7 18 3) (sigma 17 19 10) K256 H256 m"

definition sha384 :: "byte list \<Rightarrow> byte list" where
  "sha384 m =
     take 48 (sha2 (Sigma 28 34 39) (Sigma 14 18 41) (sigma 1 8 7) (sigma 19 61 6) K512 H384 m)"

definition sha512 :: "byte list \<Rightarrow> byte list" where
  "sha512 m = sha2 (Sigma 28 34 39) (Sigma 14 18 41) (sigma 1 8 7) (sigma 19 61 6) K512 H512 m"

subsection \<open>Forms, claims sets and tokens\<close>

text \<open>
  \<^verbatim>\<open>FormData\<close> is the list of the form's entries in order; only string values
  are modelled (no file uploads). A JSON object is a map from property names to JSON
  values; \<^verbatim>\<open>Object.fromEntries\<close> keeps the last entry of a repeated name.
  Token timestamps are whole seconds.
\<close>

type_synonym FormData = "(string \<times> string) list"

datatype json =
    JString string
  | JNumber int
  | JBool bool
  | JNull
  | JArray "json list"
  | JObject "(string \<times> json) list"

type_synonym JWTPayload = "string \<rightharpoonup> json"

definition Object_fromEntries :: "FormData \<Rightarrow> JWTPayload" where
  "Object_fromEntries form = map_option JString \<circ> map_of (rev form)"

record ProtectedHeader =
  alg :: string
  typ' :: "string option"

text \<open>
  The key HMAC works with (RFC 2104): the given bytes, or their hash when they are more
  than a block of the hash function, filled up with zero bytes to a block. The block has
  64 bytes for SHA-256 and 128 bytes for SHA-384 and SHA-512. So a key and the same key
  with zero bytes appended are one HMAC key, and so are a key longer than a block and its
  hash.

  The tag itself is symbolic, as usual for a protocol model: it records the algorithm, the
  HMAC key and the signed header and claims set, and two tags are equal only when all of
  these are.
\<close>

definition block_size :: "string \<Rightarrow> nat" where
  "block_size a = (if a = ''HS256'' then 64 else 128)"

definition hash :: "string \<Rightarrow> byte list \<Rightarrow> byte list" where
  "hash a m = (if a = ''HS256'' then sha256 m else if a = ''HS384'' then sha384 m else sha512 m)"

definition import_hmac_key :: "string \<Rightarrow> byte list \<Rightarrow> byte list" where
  "import_hmac_key a k =
     (let k0 = (if length k \<le> block_size a then k else hash a k)
      in k0 @ replicate (block_size a - length k0) 0)"

datatype signature =
    HMAC string "byte list" ProtectedHeader JWTPayload
  | OtherBytes "byte list"

text \<open>
  A token string is modelled by what jose's compact deserialisation reads in it:
  \<^verbatim>\<open>Compact h p s\<close> is the string
  \<^verbatim>\<open>base64url(JSON h) . base64url(JSON p) . base64url(s)\<close> with a header
  \<open>h\<close> of an \<^verbatim>\<open>alg\<close> and an optional \<^verbatim>\<open>typ\<close>, a JSON object
  \<open>p\<close> and signature bytes \<open>s\<close>; \<^verbatim>\<open>NotCompact str\<close> is a string
  \<^verbatim>\<open>str\<close> that jose does not read as a compact JWS, the empty string included.
  The JSON and base64url text of a token is not modelled beyond this, and neither are
  tokens with further header parameters or with a payload that is not a JSON object.
\<close>

datatype jwt =
    Compact ProtectedHeader JWTPayload signature
  | NotCompact string

subsection \<open>jose: \<^verbatim>\<open>SignJWT\<close>\<close>

text \<open>
  The builder of jose 6 (\<^verbatim>\<open>package.json\<close> asks for \<^verbatim>\<open>^6.0.10\<close>).
  \<^verbatim>\<open>setIssuedAt()\<close> with no argument sets \<^verbatim>\<open>iat\<close> to the current
  time. \<^verbatim>\<open>setExpirationTime(input)\<close> is documented as: "If a number is passed as
  an argument it is used as the claim directly. If a Date instance is passed, the value is
  converted to unix timestamp and used as the claim. If a string is passed it is resolved
  to a time span, and then added to the current unix timestamp and used as the claim."
  \<^verbatim>\<open>authenticate\<close> passes a number.
  \<^verbatim>\<open>sign\<close> signs with the algorithm of the protected header; a byte-array key
  is imported as an HMAC key, which Web Crypto refuses when it is empty.
\<close>

record SignJWT =
  claims_set :: JWTPayload
  protected_header :: "ProtectedHeader option"

definition new_SignJWT :: "JWTPayload \<Rightarrow> SignJWT" where
  "new_SignJWT p = \<lparr>claims_set = p, protected_header = None\<rparr>"

definition setProtectedHeader :: "ProtectedHeader \<Rightarrow> SignJWT \<Rightarrow> SignJWT" where
  "setProtectedHeader h b = b\<lparr>protected_header := Some h\<rparr>"

definition setIssuedAt :: "int \<Rightarrow> SignJWT \<Rightarrow> SignJWT" where
  "setIssuedAt current b = b\<lparr>claims_set := (claims_set b)(''iat'' \<mapsto> JNumber current)\<rparr>"

definition setExpirationTime :: "int \<Rightarrow> SignJWT \<Rightarrow> SignJWT" where
  "setExpirationTime input b = b\<lparr>claims_set := (claims_set b)(''exp'' \<mapsto> JNumber input)\<rparr>"

definition hmac_algs :: "string list" where
  "hmac_algs = [''HS256'', ''HS384'', ''HS512'']"

definition sign :: "byte list \<Rightarrow> SignJWT \<Rightarrow> error + jwt" where
  "sign k b =
     (case protected_header b of
        None \<Rightarrow> Inl JWSInvalid
      | Some h \<Rightarrow>
          if alg h = [] then Inl JWSInvalid
          else if take 2 (alg h) \<noteq> ''HS'' then Inl TypeError
          else if alg h \<notin> set hmac_algs then Inl JOSENotSupported
          else if k = [] then Inl DataError
          else Inr (Compact h (claims_set b)
                 (HMAC (alg h) (import_hmac_key (alg h) k) h (claims_set b))))"

subsection \<open>jose: \<^verbatim>\<open>jwtVerify\<close>\<close>

text \<open>
  \<^verbatim>\<open>jwtVerify(jwt, key, options)\<close> first verifies the compact JWS: the string
  must deserialise (\<^verbatim>\<open>JWSInvalid\<close>), the header's algorithm must fit a byte-array
  key (a \<^verbatim>\<open>TypeError\<close> unless its name starts with \<^verbatim>\<open>HS\<close>) and be one
  that jose implements (\<^verbatim>\<open>JOSENotSupported\<close> otherwise), the key is imported, and
  the signature must be the HMAC of the header and claims set
  (\<^verbatim>\<open>JWSSignatureVerificationFailed\<close>). Then it
  validates the claims set in this order: \<^verbatim>\<open>iat\<close> must be present when
  \<^verbatim>\<open>maxTokenAge\<close> is given, and a number; \<^verbatim>\<open>nbf\<close>, when present, a
  number not later than now + tolerance; \<^verbatim>\<open>exp\<close>, when present, a number
  later than now - tolerance (\<^verbatim>\<open>JWTExpired\<close> otherwise); and the age
  now - \<^verbatim>\<open>iat\<close> at most \<^verbatim>\<open>maxTokenAge\<close> + tolerance
  (\<^verbatim>\<open>JWTExpired\<close> otherwise) and at least - tolerance.
  It returns the whole claims set.
\<close>

record JWTVerifyOptions =
  clockTolerance :: int
  maxTokenAge :: int

definition check_age :: "int \<Rightarrow> int \<Rightarrow> JWTPayload \<Rightarrow> JWTVerifyOptions \<Rightarrow> error + JWTPayload" where
  "check_age current iat p options =
     (if maxTokenAge options \<noteq> 0 then
        (let age = current - iat; max = maxTokenAge options in
         if age - clockTolerance options > max
         then Inl (JWTExpired ''iat'' ''check_failed'')
         else if age < 0 - clockTolerance options
         then Inl (JWTClaimValidationFailed ''iat'' ''check_failed'')
         else Inr p)
      else Inr p)"

definition check_exp :: "int \<Rightarrow> int \<Rightarrow> JWTPayload \<Rightarrow> JWTVerifyOptions \<Rightarrow> error + JWTPayload" where
  "check_exp current iat p options =
     (case p ''exp'' of
        None \<Rightarrow> check_age current iat p options
      | Some (JNumber exp) \<Rightarrow>
          if exp \<le> current - clockTolerance options
          then Inl (JWTExpired ''exp'' ''check_failed'')
          else check_age current iat p options
      | Some _ \<Rightarrow> Inl (JWTClaimValidationFailed ''exp'' ''invalid''))"

definition check_nbf :: "int \<Rightarrow> int \<Rightarrow> JWTPayload \<Rightarrow> JWTVerifyOptions \<Rightarrow> error + JWTPayload" where
  "check_nbf current iat p options =
     (case p ''nbf'' of
        None \<Rightarrow> check_exp current iat p options
      | Some (JNumber nbf) \<Rightarrow>
          if nbf > current + clockTolerance options
          then Inl (JWTClaimValidationFailed ''nbf'' ''check_failed'')
          else check_exp current iat p options
      | Some _ \<Rightarrow> Inl (JWTClaimValidationFailed ''nbf'' ''invalid''))"

definition validateClaimsSet :: "int \<Rightarrow> JWTPayload \<Rightarrow> JWTVerifyOptions \<Rightarrow> error + JWTPayload" where
  "validateClaimsSet current p options =
     (case p ''iat'' of
        None \<Rightarrow> Inl (JWTClaimValidationFailed ''iat'' ''missing'')
      | Some (JNumber iat) \<Rightarrow> check_nbf current iat p options
      | Some _ \<Rightarrow> Inl (JWTClaimValidationFailed ''iat'' ''invalid''))"

definition jwtVerify :: "int \<Rightarrow> jwt \<Rightarrow> byte list \<Rightarrow> JWTVerifyOptions \<Rightarrow> error + JWTPayload" where
  "jwtVerify current token k options =
     (case token of
        NotCompact str \<Rightarrow> Inl JWSInvalid
      | Compact h p s \<Rightarrow>
          if alg h = [] then Inl JWSInvalid
          else if take 2 (alg h) \<noteq> ''HS'' then Inl TypeError
          else if alg h \<notin> set hmac_algs then Inl JOSENotSupported
          else if k = [] then Inl DataError
          else if s \<noteq> HMAC (alg h) (import_hmac_key (alg h) k) h p
          then Inl JWSSignatureVerificationFailed
          else validateClaimsSet current p options)"

section \<open>\<^verbatim>\<open>MagicLinkStrategy.authenticate\<close>\<close>

text \<open>
  What the method reads from outside: the request (the two query parameters as
  \<^verbatim>\<open>url.searchParams.get\<close> returns them, \<^verbatim>\<open>null\<close> being
  \<^verbatim>\<open>None\<close>, and what \<^verbatim>\<open>request.clone().formData()\<close> resolves or rejects
  with), the clock in seconds since the epoch, and the operating system's random bytes.
\<close>

record Options =
  expiresIn :: "int option"

record Request =
  search_token :: "jwt option"
  search_key :: "string option"
  formData :: "error + FormData"

record Env =
  now :: int
  entropy :: "nat \<Rightarrow> byte"

definition randomBytes :: "Env \<Rightarrow> nat \<Rightarrow> byte list" where
  "randomBytes env n = map (entropy env) [0..<n]"

text \<open>
  The argument of the caller's verify function: \<^verbatim>\<open>GenerateOptions\<close> has a
  \<^verbatim>\<open>key\<close>, \<^verbatim>\<open>ValidateOptions\<close> has none (\<^verbatim>\<open>key?: never\<close>).
\<close>

datatype VerifyOptions =
    GenerateOptions FormData jwt string
  | ValidateOptions JWTPayload jwt

fun key_of :: "VerifyOptions \<Rightarrow> string option" where
  "key_of (GenerateOptions form token k) = Some k"
| "key_of (ValidateOptions form token) = None"

text \<open>JavaScript's truthiness of a \<^verbatim>\<open>string | null\<close>: false for \<^verbatim>\<open>null\<close> and for the empty string.\<close>

definition truthy :: "string option \<Rightarrow> bool" where
  "truthy v = (case v of None \<Rightarrow> False | Some s \<Rightarrow> s \<noteq> [])"

definition truthy_jwt :: "jwt option \<Rightarrow> bool" where
  "truthy_jwt v = (case v of None \<Rightarrow> False | Some (NotCompact s) \<Rightarrow> s \<noteq> [] | Some _ \<Rightarrow> True)"

text \<open>\<^verbatim>\<open>this.options.expiresIn || 5 * 60\<close>: the default also replaces a zero.\<close>

definition expiresIn_or_default :: "Options \<Rightarrow> int" where
  "expiresIn_or_default options =
     (case expiresIn options of None \<Rightarrow> 5 * 60 | Some n \<Rightarrow> if n = 0 then 5 * 60 else n)"

definition authenticate ::
  "Options \<Rightarrow> (VerifyOptions \<Rightarrow> error + 'user) \<Rightarrow> Env \<Rightarrow> Request \<Rightarrow> error + 'user" where
  "authenticate options verify env request =
     (let jwt = search_token request; key = search_key request in
      if truthy_jwt jwt \<and> \<not> truthy key then
        Inl (Error ''Attempted to validate, but missing key in URL.'')
      else if \<not> truthy_jwt jwt \<and> truthy key then
        Inl (Error ''Attempted to validate, but missing token in URL.'')
      else if \<not> truthy_jwt jwt \<and> \<not> truthy key then
        (case formData request of
           Inl e \<Rightarrow> Inl e
         | Inr form \<Rightarrow>
             let key = randomBytes env 32 in
             (case sign key
                    (setExpirationTime (expiresIn_or_default options)
                      (setIssuedAt (now env)
                        (setProtectedHeader \<lparr>alg = ''HS256'', typ' = Some ''JWT''\<rparr>
                          (new_SignJWT (Object_fromEntries form))))) of
               Inl e \<Rightarrow> Inl e
             | Inr token \<Rightarrow> verify (GenerateOptions form token (toString_base64url key))))
      else if truthy_jwt jwt \<and> truthy key then
        (case jwtVerify (now env) (the jwt) (Buffer_from_base64url (the key))
                \<lparr>clockTolerance = 10, maxTokenAge = expiresIn_or_default options\<rparr> of
           Inl e \<Rightarrow> Inl e
         | Inr payload \<Rightarrow> verify (ValidateOptions payload (the jwt)))
      else Inl (Error ''Unexpected state.''))"

section \<open>Issuing a link and redeeming it\<close>

text \<open>
  Names for what the Issuer branch builds (lemma \<open>authenticate_issuer\<close> below shows that
  these are the values the code computes), and the two-call scenario of the README: the
  caller stores the key, sends the token in a link, and on the link's request puts token
  and key into the query before calling \<^verbatim>\<open>authenticate\<close> again. The callback
  \<open>Inr\<close> returns its argument, so that the result of a call shows what the callback was
  given.
\<close>

definition issued_claims :: "Options \<Rightarrow> Env \<Rightarrow> FormData \<Rightarrow> JWTPayload" where
  "issued_claims options env form =
     (Object_fromEntries form)
       (''iat'' \<mapsto> JNumber (now env), ''exp'' \<mapsto> JNumber (expiresIn_or_default options))"

definition issued_token :: "Options \<Rightarrow> Env \<Rightarrow> FormData \<Rightarrow> jwt" where
  "issued_token options env form =
     Compact \<lparr>alg = ''HS256'', typ' = Some ''JWT''\<rparr> (issued_claims options env form)
       (HMAC ''HS256'' (import_hmac_key ''HS256'' (randomBytes env 32))
          \<lparr>alg = ''HS256'', typ' = Some ''JWT''\<rparr> (issued_claims options env form))"

definition issued_key :: "Env \<Rightarrow> string" where
  "issued_key env = toString_base64url (randomBytes env 32)"

definition redeem_request :: "jwt \<Rightarrow> string \<Rightarrow> Request" where
  "redeem_request token key =
     \<lparr>search_token = Some token, search_key = Some key, formData = Inl TypeError\<rparr>"

text \<open>A concrete submission: the form \<^verbatim>\<open>email=a@b.com\<close>, posted with no query.\<close>

definition example_form :: FormData where
  "example_form = [(''email'', ''a@b.com'')]"

definition example_request :: Request where
  "example_request = \<lparr>search_token = None, search_key = None, formData = Inr example_form\<rparr>"

definition example_env :: "int \<Rightarrow> Env" where
  "example_env t = \<lparr>now = t, entropy = (\<lambda>i. 255)\<rparr>"

section \<open>Properties of the libraries' models\<close>

lemma sextets_lt_64: "s \<in> set (sextets_of_bytes bs) \<Longrightarrow> s < 64"
proof (induction bs arbitrary: s rule: sextets_of_bytes.induct)
  case (1 a b c bs)
  have "unat a < 256" "unat b < 256" "unat c < 256"
    using unsigned_less [of a] unsigned_less [of b] unsigned_less [of c] by simp_all
  then show ?case using 1 by auto
next
  case (2 a b)
  have "unat a < 256" "unat b < 256"
    using unsigned_less [of a] unsigned_less [of b] by simp_all
  then show ?case using 2 by auto
next
  case (3 a)
  have "unat a < 256" using unsigned_less [of a] by simp
  then show ?case using 3 by auto
qed simp

lemma unbase64_alphabet_all:
  "list_all (\<lambda>s. unbase64 (base64url_alphabet ! s) = Some s \<and> base64url_alphabet ! s \<noteq> CHR ''='')
     [0..<64]"
  by code_simp

lemma unbase64_alphabet:
  assumes "s < 64"
  shows "unbase64 (base64url_alphabet ! s) = Some s" and "base64url_alphabet ! s \<noteq> CHR ''=''"
  using unbase64_alphabet_all assms by (simp_all add: list_all_iff)

lemma group_nat:
  fixes a b c :: nat
  assumes "a < 256" "b < 256" "c < 256"
  shows "a div 4 * 4 + (a mod 4 * 16 + b div 16) div 16 = a"
    and "(a mod 4 * 16 + b div 16) mod 16 * 16 + (b mod 16 * 4 + c div 64) div 4 = b"
    and "(b mod 16 * 4 + c div 64) mod 4 * 64 + c mod 64 = c"
    and "(a mod 4 * 16 + b div 16) mod 16 * 16 + (b mod 16 * 4) div 4 = b"
    and "a div 4 * 4 + (a mod 4 * 16) div 16 = a"
proof -
  have b16: "b div 16 < 16" and c64: "c div 64 < 4" using assms by simp_all
  show "a div 4 * 4 + (a mod 4 * 16 + b div 16) div 16 = a" using b16 by simp
  show "(a mod 4 * 16 + b div 16) mod 16 * 16 + (b mod 16 * 4 + c div 64) div 4 = b"
    using b16 c64 by simp
  show "(b mod 16 * 4 + c div 64) mod 4 * 64 + c mod 64 = c" using c64 by simp
  show "(a mod 4 * 16 + b div 16) mod 16 * 16 + (b mod 16 * 4) div 4 = b" using b16 by simp
  show "a div 4 * 4 + (a mod 4 * 16) div 16 = a" by simp
qed

lemma bytes_of_sextets_of_bytes: "bytes_of_sextets (sextets_of_bytes bs) = bs"
proof (induction bs rule: sextets_of_bytes.induct)
  case (1 a b c bs)
  have "unat a < 256" "unat b < 256" "unat c < 256"
    using unsigned_less [of a] unsigned_less [of b] unsigned_less [of c] by simp_all
  from group_nat(1-3) [OF this] 1 show ?case by simp
next
  case (2 a b)
  have "unat a < 256" "unat b < 256" "(0::nat) < 256"
    using unsigned_less [of a] unsigned_less [of b] by simp_all
  from group_nat(1,4) [OF this] show ?case by simp
next
  case (3 a)
  have "unat a < 256" "(0::nat) < 256" "(0::nat) < 256"
    using unsigned_less [of a] by simp_all
  from group_nat(5) [OF this] show ?case by simp
qed simp

lemma map_filter_unbase64:
  "\<forall>s \<in> set ss. s < 64 \<Longrightarrow>
   List.map_filter unbase64
     (takeWhile (\<lambda>c. c \<noteq> CHR ''='') (map (\<lambda>s. base64url_alphabet ! s) ss @ rest)) =
   ss @ List.map_filter unbase64 (takeWhile (\<lambda>c. c \<noteq> CHR ''='') rest)"
  by (induction ss) (simp_all add: List.map_filter_simps unbase64_alphabet)

text \<open>Decoding inverts encoding, also when padding follows the encoded text.\<close>

lemma Buffer_from_toString: "Buffer_from_base64url (toString_base64url bs) = bs"
  using map_filter_unbase64 [of "sextets_of_bytes bs" "[]"]
  by (simp add: Buffer_from_base64url_def toString_base64url_def sextets_lt_64
      bytes_of_sextets_of_bytes List.map_filter_simps)

lemma Buffer_from_toString_padded:
  "Buffer_from_base64url (toString_base64url bs @ CHR ''='' # rest) = bs"
  using map_filter_unbase64 [of "sextets_of_bytes bs" "CHR ''='' # rest"]
  by (simp add: Buffer_from_base64url_def toString_base64url_def sextets_lt_64
      bytes_of_sextets_of_bytes List.map_filter_simps)

lemma sextets_nonempty: "bs \<noteq> [] \<Longrightarrow> sextets_of_bytes bs \<noteq> []"
  by (induction bs rule: sextets_of_bytes.induct) simp_all

lemma toString_base64url_nonempty: "bs \<noteq> [] \<Longrightarrow> toString_base64url bs \<noteq> []"
  by (simp add: toString_base64url_def sextets_nonempty)

lemma length_randomBytes: "length (randomBytes env n) = n"
  by (simp add: randomBytes_def)

lemma randomBytes_32_nonempty: "randomBytes env 32 \<noteq> []"
  using length_randomBytes [of env 32] by auto

text \<open>A digest has the length of its eight state words.\<close>

lemma length_be_bytes: "length (be_bytes n x) = n"
  by (simp add: be_bytes_def)

lemma length_sha2_round: "length st = 8 \<Longrightarrow> length (sha2_round S0 S1 st kw) = 8"
proof -
  assume "length st = 8"
  then obtain a b c d e f g h where "st = [a, b, c, d, e, f, g, h]"
    by (auto simp: eval_nat_numeral length_Suc_conv)
  then show ?thesis by (cases kw) (simp add: Let_def)
qed

lemma length_foldl_sha2_round:
  "length st = 8 \<Longrightarrow> length (foldl (sha2_round S0 S1) st kws) = 8"
  by (induction kws arbitrary: st) (simp_all add: length_sha2_round)

lemma length_sha2_compress:
  "length hs = 8 \<Longrightarrow> length (sha2_compress S0 S1 s0 s1 K hs block) = 8"
  by (simp add: sha2_compress_def length_foldl_sha2_round)

lemma length_foldl_sha2_compress:
  "length hs = 8 \<Longrightarrow> length (foldl (sha2_compress S0 S1 s0 s1 K) hs blocks) = 8"
  by (induction blocks arbitrary: hs) (simp_all add: length_sha2_compress)

lemma length_concat_be_bytes:
  "length (concat (map (\<lambda>w. be_bytes n (f w)) ws)) = length ws * n"
  by (induction ws) (simp_all add: length_be_bytes)

lemma length_sha256: "length (sha256 m) = 32"
proof -
  have "length H256 = 8" by (simp add: H256_def)
  then show ?thesis
    by (simp add: sha256_def sha2_def length_concat_be_bytes length_foldl_sha2_compress)
qed

text \<open>
  The HMAC key of the algorithm HS256, spelt out; a key that is longer than a block and the
  32 bytes of its digest are the same HMAC key.
\<close>

lemma import_hmac_key_HS256:
  "import_hmac_key ''HS256'' k =
     (let k0 = (if length k \<le> 64 then k else sha256 k)
      in k0 @ replicate (64 - length k0) 0)"
  by (simp add: import_hmac_key_def block_size_def hash_def)

lemma long_key_is_digest_key:
  "64 < length k \<Longrightarrow> import_hmac_key ''HS256'' k = import_hmac_key ''HS256'' (sha256 k)"
  by (simp add: import_hmac_key_HS256 length_sha256)

lemma distinct_32_byte_keys:
  assumes "length b' = 32" and "length b = 32" and "b' \<noteq> b"
  shows "(let k0 = (if length b' \<le> 64 then b' else sha256 b')
          in k0 @ replicate (64 - length k0) 0) \<noteq> b @ replicate 32 0"
  using assms by simp

lemma check_age_Inr: "check_age t iat p options = Inr p' \<Longrightarrow> p' = p"
  by (auto simp: check_age_def Let_def split: if_splits)

lemma check_exp_Inr: "check_exp t iat p options = Inr p' \<Longrightarrow> p' = p"
  by (auto simp: check_exp_def split: option.splits json.splits if_splits dest: check_age_Inr)

lemma check_nbf_Inr: "check_nbf t iat p options = Inr p' \<Longrightarrow> p' = p"
  by (auto simp: check_nbf_def split: option.splits json.splits if_splits dest: check_exp_Inr)

lemma validateClaimsSet_Inr:
  assumes "validateClaimsSet t p options = Inr p'"
  shows "p' = p" and "\<exists>iat. p ''iat'' = Some (JNumber iat)"
  using assms
  by (auto simp: validateClaimsSet_def split: option.splits json.splits dest: check_nbf_Inr)

lemma jwtVerify_Inr:
  assumes "jwtVerify t token k options = Inr p"
  shows "\<exists>h. token = Compact h p (HMAC (alg h) (import_hmac_key (alg h) k) h p)"
    and "\<exists>iat. p ''iat'' = Some (JNumber iat)"
  using assms
  by (auto simp: jwtVerify_def split: jwt.splits if_splits dest: validateClaimsSet_Inr)

section \<open>The two branches of \<^verbatim>\<open>authenticate\<close>\<close>

lemma sign_issued:
  "sign (randomBytes env 32)
     (setExpirationTime (expiresIn_or_default options)
       (setIssuedAt (now env)
         (setProtectedHeader \<lparr>alg = ''HS256'', typ' = Some ''JWT''\<rparr>
           (new_SignJWT (Object_fromEntries form))))) = Inr (issued_token options env form)"
  by (simp add: sign_def setExpirationTime_def setIssuedAt_def setProtectedHeader_def
      new_SignJWT_def issued_token_def issued_claims_def hmac_algs_def randomBytes_32_nonempty)

lemma authenticate_issuer:
  assumes "\<not> truthy_jwt (search_token request)" and "\<not> truthy (search_key request)"
  shows "authenticate options verify env request =
           (case formData request of
              Inl e \<Rightarrow> Inl e
            | Inr form \<Rightarrow>
                verify (GenerateOptions form (issued_token options env form) (issued_key env)))"
  using assms by (simp add: authenticate_def Let_def sign_issued issued_key_def split: sum.split)

lemma authenticate_verifier:
  assumes "truthy_jwt (search_token request)" and "truthy (search_key request)"
  shows "authenticate options verify env request =
           (case jwtVerify (now env) (the (search_token request))
                   (Buffer_from_base64url (the (search_key request)))
                   \<lparr>clockTolerance = 10, maxTokenAge = expiresIn_or_default options\<rparr> of
              Inl e \<Rightarrow> Inl e
            | Inr payload \<Rightarrow> verify (ValidateOptions payload (the (search_token request))))"
  using assms by (simp add: authenticate_def Let_def)

text \<open>
  Whatever the callback is, \<^verbatim>\<open>authenticate\<close> either fails before calling it or
  returns what it returns on one argument; the callback \<open>Inr\<close> shows which.
\<close>

lemma authenticate_callback:
  "authenticate options verify env request =
     (case authenticate options Inr env request of
        Inl e \<Rightarrow> Inl e
      | Inr outcome \<Rightarrow> verify outcome)"
  by (simp add: authenticate_def Let_def split: sum.split)

lemma truthy_issued_key: "truthy (Some (issued_key env))"
  by (simp add: truthy_def issued_key_def toString_base64url_nonempty randomBytes_32_nonempty)

lemma truthy_jwt_Compact: "truthy_jwt (Some (Compact h p s))"
  by (simp add: truthy_jwt_def)

lemma Buffer_from_issued_key: "Buffer_from_base64url (issued_key env) = randomBytes env 32"
  by (simp add: issued_key_def Buffer_from_toString)

lemma import_issued_key:
  "import_hmac_key ''HS256'' (randomBytes env 32) = randomBytes env 32 @ replicate 32 0"
  by (simp add: import_hmac_key_HS256 length_randomBytes)

lemma jwtVerify_issued:
  "jwtVerify t (issued_token options env form) k vopts =
     (if k = [] then Inl DataError
      else if import_hmac_key ''HS256'' k \<noteq> import_hmac_key ''HS256'' (randomBytes env 32)
      then Inl JWSSignatureVerificationFailed
      else validateClaimsSet t (issued_claims options env form) vopts)"
  by (auto simp: jwtVerify_def issued_token_def hmac_algs_def)

lemma authenticate_redeem:
  assumes "search_token request = Some (issued_token options env form)"
      and "search_key request = Some key'" and "key' \<noteq> []"
  shows "authenticate options' verify env' request =
     (case jwtVerify (now env') (issued_token options env form) (Buffer_from_base64url key')
             \<lparr>clockTolerance = 10, maxTokenAge = expiresIn_or_default options'\<rparr> of
        Inl e \<Rightarrow> Inl e
      | Inr p \<Rightarrow> verify (ValidateOptions p (issued_token options env form)))"
proof -
  have "truthy_jwt (search_token request)"
    using assms(1) by (simp add: issued_token_def truthy_jwt_Compact)
  moreover have "truthy (search_key request)"
    using assms(2,3) by (simp add: truthy_def)
  ultimately show ?thesis
    using assms(1,2) by (simp add: authenticate_verifier split: sum.split)
qed

lemma redeem_issued:
  assumes "search_token request = Some (issued_token options env form)"
      and "search_key request = Some (issued_key env)"
  shows "authenticate options' verify env' request =
     (case validateClaimsSet (now env') (issued_claims options env form)
             \<lparr>clockTolerance = 10, maxTokenAge = expiresIn_or_default options'\<rparr> of
        Inl e \<Rightarrow> Inl e
      | Inr p \<Rightarrow> verify (ValidateOptions p (issued_token options env form)))"
proof -
  have "issued_key env \<noteq> []"
    using truthy_issued_key [of env] by (simp add: truthy_def)
  from authenticate_redeem [OF assms this] show ?thesis
    by (simp add: Buffer_from_issued_key jwtVerify_issued randomBytes_32_nonempty)
qed

lemma issued_inversion:
  assumes "authenticate options Inr env request = Inr (GenerateOptions form token key)"
  shows "formData request = Inr form" and "token = issued_token options env form"
    and "key = issued_key env"
proof -
  consider (missing_key) "truthy_jwt (search_token request)" "\<not> truthy (search_key request)"
    | (missing_token) "\<not> truthy_jwt (search_token request)" "truthy (search_key request)"
    | (issuer) "\<not> truthy_jwt (search_token request)" "\<not> truthy (search_key request)"
    | (verifier) "truthy_jwt (search_token request)" "truthy (search_key request)"
    by blast
  then have "formData request = Inr form \<and> token = issued_token options env form
      \<and> key = issued_key env"
  proof cases
    case missing_key
    with assms show ?thesis by (simp add: authenticate_def Let_def)
  next
    case missing_token
    with assms show ?thesis by (simp add: authenticate_def Let_def)
  next
    case issuer
    with assms show ?thesis by (auto simp: authenticate_issuer split: sum.splits)
  next
    case verifier
    with assms show ?thesis by (auto simp: authenticate_verifier split: sum.splits)
  qed
  then show "formData request = Inr form" and "token = issued_token options env form"
    and "key = issued_key env" by simp_all
qed

lemma validated_inversion:
  assumes "truthy_jwt (search_token request)" and "truthy (search_key request)"
      and "authenticate options Inr env request = Inr outcome"
  shows "\<exists>p. jwtVerify (now env) (the (search_token request))
                (Buffer_from_base64url (the (search_key request)))
                \<lparr>clockTolerance = 10, maxTokenAge = expiresIn_or_default options\<rparr> = Inr p
             \<and> outcome = ValidateOptions p (the (search_token request))"
  using assms by (auto simp: authenticate_verifier split: sum.splits)

section \<open>The example submission\<close>

lemma issue_example:
  "authenticate options verify env example_request =
     verify (GenerateOptions example_form (issued_token options env example_form) (issued_key env))"
  by (simp add: authenticate_issuer example_request_def truthy_def truthy_jwt_def)

lemma redeem_example:
  "authenticate options' verify env' (redeem_request (issued_token options env form) (issued_key env)) =
     (case validateClaimsSet (now env') (issued_claims options env form)
             \<lparr>clockTolerance = 10, maxTokenAge = expiresIn_or_default options'\<rparr> of
        Inl e \<Rightarrow> Inl e
      | Inr p \<Rightarrow> verify (ValidateOptions p (issued_token options env form)))"
  by (rule redeem_issued) (simp_all add: redeem_request_def)

lemmas example_defs = validateClaimsSet_def check_nbf_def check_exp_def check_age_def
  issued_claims_def Object_fromEntries_def example_form_def example_env_def
  expiresIn_or_default_def

lemma example_key_bytes: "randomBytes (example_env t) 32 = replicate 32 255"
  by (simp add: randomBytes_def example_env_def map_replicate_const)

lemma wrong_key_example:
  "import_hmac_key ''HS256'' (Buffer_from_base64url ''AAAA'') \<noteq>
   import_hmac_key ''HS256'' (Buffer_from_base64url (issued_key (example_env t)))"
proof -
  have "Buffer_from_base64url ''AAAA'' = [0, 0, 0]"
    by code_simp
  moreover have "hd ([0, 0, 0] @ replicate 61 (0::byte)) \<noteq> hd (replicate 32 255 @ replicate 32 (0::byte))"
    by simp
  then have "[0, 0, 0] @ replicate 61 (0::byte) \<noteq> replicate 32 255 @ replicate 32 (0::byte)"
    by metis
  ultimately show ?thesis
    by (simp add: Buffer_from_issued_key example_key_bytes import_hmac_key_HS256)
qed

text \<open>
  A key of more than 64 bytes verifies the token that was issued with its digest as key:
  both calls give the same result.
\<close>

lemma long_key_redeems_like_digest:
  assumes "64 < length k" and "randomBytes env 32 = sha256 k"
  shows "authenticate options' verify env'
           (redeem_request (issued_token options env form) (toString_base64url k)) =
         authenticate options' verify env'
           (redeem_request (issued_token options env form) (issued_key env))"
proof -
  from assms(1) have "k \<noteq> []" by auto
  then have k: "toString_base64url k \<noteq> []" by (rule toString_base64url_nonempty)
  have "authenticate options' verify env'
          (redeem_request (issued_token options env form) (toString_base64url k)) =
        (case jwtVerify (now env') (issued_token options env form)
                (Buffer_from_base64url (toString_base64url k))
                \<lparr>clockTolerance = 10, maxTokenAge = expiresIn_or_default options'\<rparr> of
           Inl e \<Rightarrow> Inl e
         | Inr p \<Rightarrow> verify (ValidateOptions p (issued_token options env form)))"
    by (rule authenticate_redeem) (simp_all add: redeem_request_def k)
  moreover have "import_hmac_key ''HS256'' k = import_hmac_key ''HS256'' (randomBytes env 32)"
    using long_key_is_digest_key [OF assms(1)] assms(2) by simp
  ultimately show ?thesis
    using \<open>k \<noteq> []\<close>
    by (simp add: redeem_example Buffer_from_toString jwtVerify_issued)
qed

lemma example_claims:
  "issued_claims options (example_env t) example_form =
     [''email'' \<mapsto> JString ''a@b.com'', ''iat'' \<mapsto> JNumber t,
      ''exp'' \<mapsto> JNumber (expiresIn_or_default options)]"
  by (simp add: issued_claims_def Object_fromEntries_def example_form_def example_env_def
      fun_eq_iff)

text \<open>
  What \<^verbatim>\<open>setExpirationTime\<close> makes of the number it is given: the issued token's
  \<^verbatim>\<open>exp\<close> is the configured number of seconds itself, counted from the epoch,
  so whenever the clock is 10 seconds past that number, whatever the time of issue was,
  redeeming the token with its own key fails.
\<close>

lemma issued_token_rejected:
  assumes "expiresIn_or_default options \<le> now env' - 10"
  shows "\<exists>e. authenticate options' verify env'
               (redeem_request (issued_token options env form) (issued_key env)) = Inl e"
proof -
  have "\<exists>e. validateClaimsSet (now env') (issued_claims options env form)
               \<lparr>clockTolerance = 10, maxTokenAge = expiresIn_or_default options'\<rparr> = Inl e"
    using assms
    by (simp add: validateClaimsSet_def check_nbf_def check_exp_def issued_claims_def
        split: option.split json.split)
  then show ?thesis
    by (auto simp: redeem_example)
qed

text \<open>
  The age check alone rejects a token that is redeemed \<^verbatim>\<open>expiresIn\<close> + 10 + 1
  seconds after its issue.
\<close>

lemma issued_token_rejected_late:
  assumes "now env' = now env + expiresIn_or_default options + 10 + 1"
  shows "\<exists>e. authenticate options verify env'
               (redeem_request (issued_token options env form) (issued_key env)) = Inl e"
proof -
  have "expiresIn_or_default options \<noteq> 0"
    by (simp add: expiresIn_or_default_def split: option.split)
  then have "\<exists>e. validateClaimsSet (now env') (issued_claims options env form)
               \<lparr>clockTolerance = 10, maxTokenAge = expiresIn_or_default options\<rparr> = Inl e"
    using assms
    by (simp add: validateClaimsSet_def check_nbf_def check_exp_def check_age_def Let_def
        issued_claims_def split: option.split json.split)
  then show ?thesis
    by (auto simp: redeem_example)
qed

section \<open>The claims\<close>

subsection \<open>C1: round trip\<close>

text \<open>
  Claim C1, as the code has it. Let the Issuer branch issue a token and a key for a
  request whose body decodes to the form \<open>F\<close>, and let the Verifier branch, called
  with that token and key in the query, accept them. Then the callback receives the
  presented token and, as form, the claims set of the token: the fields of \<open>F\<close>
  (its \<^verbatim>\<open>Object.fromEntries\<close>) together with the timing claims \<^verbatim>\<open>iat\<close>,
  the time of issue, and \<^verbatim>\<open>exp\<close>. Whether the Verifier accepts the token right
  after issue is not part of this statement.
\<close>

theorem round_trip_form:
  assumes issued: "authenticate options Inr env request = Inr (GenerateOptions form token key)"
      and redeemed: "authenticate options' Inr env'
          \<lparr>search_token = Some token, search_key = Some key, formData = body\<rparr> = Inr outcome"
  shows "formData request = Inr form \<and>
         (\<exists>exp. outcome = ValidateOptions
            ((Object_fromEntries form)(''iat'' \<mapsto> JNumber (now env), ''exp'' \<mapsto> JNumber exp)) token)"
proof -
  note inv = issued_inversion [OF issued]
  have "authenticate options' Inr env'
          \<lparr>search_token = Some token, search_key = Some key, formData = body\<rparr> =
        (case validateClaimsSet (now env') (issued_claims options env form)
                \<lparr>clockTolerance = 10, maxTokenAge = expiresIn_or_default options'\<rparr> of
           Inl e \<Rightarrow> Inl e
         | Inr p \<Rightarrow> Inr (ValidateOptions p (issued_token options env form)))"
    by (rule redeem_issued) (simp_all add: inv)
  with redeemed have "outcome = ValidateOptions (issued_claims options env form) token"
    by (auto simp: inv split: sum.splits dest: validateClaimsSet_Inr(1))
  then have "outcome = ValidateOptions
      ((Object_fromEntries form)(''iat'' \<mapsto> JNumber (now env),
         ''exp'' \<mapsto> JNumber (expiresIn_or_default options))) token"
    by (simp add: issued_claims_def)
  then show ?thesis using inv(1) by blast
qed

text \<open>The hypotheses of the theorem hold for the example submission when the
  configured \<^verbatim>\<open>expiresIn\<close> is 2000000000 and the clock stands at 1700000000.\<close>

theorem round_trip_form_witness:
  "authenticate \<lparr>expiresIn = Some 2000000000\<rparr> Inr (example_env 1700000000) example_request =
     Inr (GenerateOptions example_form
            (issued_token \<lparr>expiresIn = Some 2000000000\<rparr> (example_env 1700000000) example_form)
            (issued_key (example_env 1700000000)))
   \<and> authenticate \<lparr>expiresIn = Some 2000000000\<rparr> Inr (example_env 1700000000)
       \<lparr>search_token =
          Some (issued_token \<lparr>expiresIn = Some 2000000000\<rparr> (example_env 1700000000) example_form),
        search_key = Some (issued_key (example_env 1700000000)),
        formData = Inl TypeError\<rparr> =
     Inr (ValidateOptions
            (issued_claims \<lparr>expiresIn = Some 2000000000\<rparr> (example_env 1700000000) example_form)
            (issued_token \<lparr>expiresIn = Some 2000000000\<rparr> (example_env 1700000000) example_form))
   \<and> formData example_request = Inr example_form
   \<and> (\<exists>exp. ValidateOptions
            (issued_claims \<lparr>expiresIn = Some 2000000000\<rparr> (example_env 1700000000) example_form)
            (issued_token \<lparr>expiresIn = Some 2000000000\<rparr> (example_env 1700000000) example_form) =
          ValidateOptions
            ((Object_fromEntries example_form)
               (''iat'' \<mapsto> JNumber (now (example_env 1700000000)), ''exp'' \<mapsto> JNumber exp))
            (issued_token \<lparr>expiresIn = Some 2000000000\<rparr> (example_env 1700000000) example_form))"
proof -
  let ?o = "\<lparr>expiresIn = Some 2000000000\<rparr>" and ?env = "example_env 1700000000"
  have issued: "authenticate ?o Inr ?env example_request =
      Inr (GenerateOptions example_form (issued_token ?o ?env example_form) (issued_key ?env))"
    by (rule issue_example)
  have valid: "validateClaimsSet (now ?env) (issued_claims ?o ?env example_form)
        \<lparr>clockTolerance = 10, maxTokenAge = expiresIn_or_default ?o\<rparr> =
      Inr (issued_claims ?o ?env example_form)"
    by (simp add: example_defs)
  have redeemed: "authenticate ?o Inr ?env
        \<lparr>search_token = Some (issued_token ?o ?env example_form),
         search_key = Some (issued_key ?env), formData = Inl TypeError\<rparr> =
      Inr (ValidateOptions (issued_claims ?o ?env example_form) (issued_token ?o ?env example_form))"
    using redeem_example [of ?o Inr ?env ?o ?env example_form]
    by (simp add: redeem_request_def valid)
  from round_trip_form [OF issued redeemed] issued redeemed show ?thesis by simp
qed

text \<open>
  C1 as stated, with a form equal to \<open>F\<close>, fails on that input: the token verifies
  at once, and the form given to the callback has an \<^verbatim>\<open>iat\<close> field, which
  \<open>F\<close> has not.
\<close>

theorem round_trip_counterexample:
  "authenticate \<lparr>expiresIn = Some 2000000000\<rparr> Inr (example_env 1700000000) example_request =
     Inr (GenerateOptions example_form
            (issued_token \<lparr>expiresIn = Some 2000000000\<rparr> (example_env 1700000000) example_form)
            (issued_key (example_env 1700000000)))
   \<and> authenticate \<lparr>expiresIn = Some 2000000000\<rparr> Inr (example_env 1700000000)
        (redeem_request
           (issued_token \<lparr>expiresIn = Some 2000000000\<rparr> (example_env 1700000000) example_form)
           (issued_key (example_env 1700000000))) =
     Inr (ValidateOptions
            (issued_claims \<lparr>expiresIn = Some 2000000000\<rparr> (example_env 1700000000) example_form)
            (issued_token \<lparr>expiresIn = Some 2000000000\<rparr> (example_env 1700000000) example_form))
   \<and> issued_claims \<lparr>expiresIn = Some 2000000000\<rparr> (example_env 1700000000) example_form
       \<noteq> Object_fromEntries example_form
   \<and> issued_claims \<lparr>expiresIn = Some 2000000000\<rparr> (example_env 1700000000) example_form ''iat''
       = Some (JNumber 1700000000)
   \<and> Object_fromEntries example_form ''iat'' = None"
proof -
  let ?o = "\<lparr>expiresIn = Some 2000000000\<rparr>" and ?env = "example_env 1700000000"
  have valid: "validateClaimsSet (now ?env) (issued_claims ?o ?env example_form)
        \<lparr>clockTolerance = 10, maxTokenAge = expiresIn_or_default ?o\<rparr> =
      Inr (issued_claims ?o ?env example_form)"
    by (simp add: example_defs)
  have run: "authenticate ?o Inr ?env
      (redeem_request (issued_token ?o ?env example_form) (issued_key ?env)) =
      Inr (ValidateOptions (issued_claims ?o ?env example_form) (issued_token ?o ?env example_form))"
    by (simp add: redeem_example valid)
  have iat: "issued_claims ?o ?env example_form ''iat'' = Some (JNumber 1700000000)"
    by (simp add: example_defs)
  have none: "Object_fromEntries example_form ''iat'' = None"
    by (simp add: example_defs)
  from iat none have "issued_claims ?o ?env example_form \<noteq> Object_fromEntries example_form"
    by (metis option.distinct(1))
  with run iat none show ?thesis by (simp add: issue_example)
qed

subsection \<open>C2: expiry boundary\<close>

text \<open>
  Claim C2 says that a token of maximum age \<open>E\<close> still verifies \<open>E + 10 - 1\<close> seconds
  after issue. The code at such an input: the example submission, \<^verbatim>\<open>expiresIn\<close>
  unset (so \<open>E = 300\<close>), issued at 1700000000 and redeemed 309 seconds later with the
  issued token and key. The Issuer has passed the number 300 to
  \<^verbatim>\<open>setExpirationTime\<close>, which takes a number as the \<^verbatim>\<open>exp\<close> claim
  itself, so the token's \<^verbatim>\<open>exp\<close> is 300 seconds after the epoch and jose
  rejects the token as expired.
\<close>

theorem expiry_boundary_failing_input:
  "authenticate \<lparr>expiresIn = None\<rparr> Inr (example_env 1700000000) example_request =
     Inr (GenerateOptions example_form
            (issued_token \<lparr>expiresIn = None\<rparr> (example_env 1700000000) example_form)
            (issued_key (example_env 1700000000)))
   \<and> authenticate \<lparr>expiresIn = None\<rparr> Inr (example_env (1700000000 + 300 + 10 - 1))
        (redeem_request
           (issued_token \<lparr>expiresIn = None\<rparr> (example_env 1700000000) example_form)
           (issued_key (example_env 1700000000))) =
     Inl (JWTExpired ''exp'' ''check_failed'')"
proof -
  have "validateClaimsSet (now (example_env (1700000000 + 300 + 10 - 1)))
          (issued_claims \<lparr>expiresIn = None\<rparr> (example_env 1700000000) example_form)
          \<lparr>clockTolerance = 10, maxTokenAge = expiresIn_or_default \<lparr>expiresIn = None\<rparr>\<rparr> =
        Inl (JWTExpired ''exp'' ''check_failed'')"
    by (simp add: example_defs)
  then show ?thesis
    by (simp add: issue_example redeem_example)
qed

subsection \<open>C3: no key in the validation outcome\<close>

text \<open>
  Claim C3: whenever \<^verbatim>\<open>authenticate\<close> runs in Verifier mode (token and key both
  given in the query) and calls the callback, the outcome it passes has no
  \<^verbatim>\<open>key\<close> field.
\<close>

theorem validation_outcome_has_no_key:
  assumes "truthy_jwt (search_token request)" and "truthy (search_key request)"
      and "authenticate options Inr env request = Inr outcome"
  shows "key_of outcome = None"
  using validated_inversion [OF assms] by auto

text \<open>
  A Verifier call that reaches the callback: the example token, issued with
  \<^verbatim>\<open>expiresIn\<close> 2000000000, redeemed a minute later.
\<close>

theorem validation_outcome_has_no_key_witness:
  "truthy_jwt (search_token (redeem_request
       (issued_token \<lparr>expiresIn = Some 2000000000\<rparr> (example_env 1700000000) example_form)
       (issued_key (example_env 1700000000))))
   \<and> truthy (search_key (redeem_request
       (issued_token \<lparr>expiresIn = Some 2000000000\<rparr> (example_env 1700000000) example_form)
       (issued_key (example_env 1700000000))))
   \<and> authenticate \<lparr>expiresIn = Some 2000000000\<rparr> Inr (example_env 1700000060)
        (redeem_request
           (issued_token \<lparr>expiresIn = Some 2000000000\<rparr> (example_env 1700000000) example_form)
           (issued_key (example_env 1700000000))) =
      Inr (ValidateOptions
            (issued_claims \<lparr>expiresIn = Some 2000000000\<rparr> (example_env 1700000000) example_form)
            (issued_token \<lparr>expiresIn = Some 2000000000\<rparr> (example_env 1700000000) example_form))
   \<and> key_of (ValidateOptions
            (issued_claims \<lparr>expiresIn = Some 2000000000\<rparr> (example_env 1700000000) example_form)
            (issued_token \<lparr>expiresIn = Some 2000000000\<rparr> (example_env 1700000000) example_form))
      = None"
proof -
  let ?o = "\<lparr>expiresIn = Some 2000000000\<rparr>" and ?env = "example_env 1700000000"
  let ?r = "redeem_request (issued_token ?o ?env example_form) (issued_key ?env)"
  have t: "truthy_jwt (search_token ?r)"
    by (simp add: redeem_request_def issued_token_def truthy_jwt_Compact)
  have k: "truthy (search_key ?r)"
    by (simp add: redeem_request_def truthy_issued_key)
  have "validateClaimsSet (now (example_env 1700000060)) (issued_claims ?o ?env example_form)
        \<lparr>clockTolerance = 10, maxTokenAge = expiresIn_or_default ?o\<rparr> =
      Inr (issued_claims ?o ?env example_form)"
    by (simp add: example_defs)
  then have r: "authenticate ?o Inr (example_env 1700000060) ?r =
      Inr (ValidateOptions (issued_claims ?o ?env example_form) (issued_token ?o ?env example_form))"
    by (simp add: redeem_example)
  from validation_outcome_has_no_key [OF t k r] t k r show ?thesis by simp
qed

subsection \<open>C4: mode dispatch\<close>

text \<open>
  Claim C4, with "present" read as JavaScript's truthiness, which is what the code tests:
  a parameter counts when it is given and not empty. If only the token counts,
  \<^verbatim>\<open>authenticate\<close> fails with the error that names the missing key; if only the key
  counts, with the error that names the missing token; in both cases whatever the callback
  is, so it is not called. If neither counts the Issuer branch runs, and if both count the
  Verifier branch runs.
\<close>

theorem mode_dispatch:
  "(truthy_jwt (search_token request) \<and> \<not> truthy (search_key request) \<longrightarrow>
      authenticate options verify env request =
        Inl (Error ''Attempted to validate, but missing key in URL.''))
   \<and> (\<not> truthy_jwt (search_token request) \<and> truthy (search_key request) \<longrightarrow>
      authenticate options verify env request =
        Inl (Error ''Attempted to validate, but missing token in URL.''))
   \<and> (\<not> truthy_jwt (search_token request) \<and> \<not> truthy (search_key request) \<longrightarrow>
      authenticate options verify env request =
        (case formData request of
           Inl e \<Rightarrow> Inl e
         | Inr form \<Rightarrow>
             verify (GenerateOptions form (issued_token options env form) (issued_key env))))
   \<and> (truthy_jwt (search_token request) \<and> truthy (search_key request) \<longrightarrow>
      authenticate options verify env request =
        (case jwtVerify (now env) (the (search_token request))
                (Buffer_from_base64url (the (search_key request)))
                \<lparr>clockTolerance = 10, maxTokenAge = expiresIn_or_default options\<rparr> of
           Inl e \<Rightarrow> Inl e
         | Inr payload \<Rightarrow> verify (ValidateOptions payload (the (search_token request)))))"
proof (intro conjI impI)
  assume "truthy_jwt (search_token request) \<and> \<not> truthy (search_key request)"
  then show "authenticate options verify env request =
      Inl (Error ''Attempted to validate, but missing key in URL.'')"
    by (simp add: authenticate_def Let_def)
next
  assume "\<not> truthy_jwt (search_token request) \<and> truthy (search_key request)"
  then show "authenticate options verify env request =
      Inl (Error ''Attempted to validate, but missing token in URL.'')"
    by (simp add: authenticate_def Let_def)
next
  assume "\<not> truthy_jwt (search_token request) \<and> \<not> truthy (search_key request)"
  then show "authenticate options verify env request =
      (case formData request of
         Inl e \<Rightarrow> Inl e
       | Inr form \<Rightarrow>
           verify (GenerateOptions form (issued_token options env form) (issued_key env)))"
    by (simp add: authenticate_issuer)
next
  assume "truthy_jwt (search_token request) \<and> truthy (search_key request)"
  then show "authenticate options verify env request =
      (case jwtVerify (now env) (the (search_token request))
              (Buffer_from_base64url (the (search_key request)))
              \<lparr>clockTolerance = 10, maxTokenAge = expiresIn_or_default options\<rparr> of
         Inl e \<Rightarrow> Inl e
       | Inr payload \<Rightarrow> verify (ValidateOptions payload (the (search_token request))))"
    by (simp add: authenticate_verifier)
qed

text \<open>
  One request for each of the four cases of the theorem.
\<close>

theorem mode_dispatch_witness:
  "(truthy_jwt (Some (NotCompact ''abc'')) \<and> \<not> truthy None)
   \<and> authenticate \<lparr>expiresIn = None\<rparr> Inr (example_env 1700000000)
        \<lparr>search_token = Some (NotCompact ''abc''), search_key = None, formData = Inl TypeError\<rparr> =
      Inl (Error ''Attempted to validate, but missing key in URL.'')
   \<and> (\<not> truthy_jwt None \<and> truthy (Some ''abc''))
   \<and> authenticate \<lparr>expiresIn = None\<rparr> Inr (example_env 1700000000)
        \<lparr>search_token = None, search_key = Some ''abc'', formData = Inl TypeError\<rparr> =
      Inl (Error ''Attempted to validate, but missing token in URL.'')
   \<and> (\<not> truthy_jwt None \<and> \<not> truthy None)
   \<and> authenticate \<lparr>expiresIn = None\<rparr> Inr (example_env 1700000000)
        \<lparr>search_token = None, search_key = None, formData = Inr example_form\<rparr> =
      Inr (GenerateOptions example_form
             (issued_token \<lparr>expiresIn = None\<rparr> (example_env 1700000000) example_form)
             (issued_key (example_env 1700000000)))
   \<and> (truthy_jwt (Some (NotCompact ''abc'')) \<and> truthy (Some ''abc''))
   \<and> authenticate \<lparr>expiresIn = None\<rparr> Inr (example_env 1700000000)
        \<lparr>search_token = Some (NotCompact ''abc''), search_key = Some ''abc'',
         formData = Inl TypeError\<rparr> =
      Inl JWSInvalid"
  using
    mode_dispatch [of "\<lparr>search_token = Some (NotCompact ''abc''), search_key = None,
        formData = Inl TypeError\<rparr>" "\<lparr>expiresIn = None\<rparr>" Inr "example_env 1700000000"]
    mode_dispatch [of "\<lparr>search_token = None, search_key = Some ''abc'',
        formData = Inl TypeError\<rparr>" "\<lparr>expiresIn = None\<rparr>" Inr "example_env 1700000000"]
    mode_dispatch [of "\<lparr>search_token = None, search_key = None,
        formData = Inr example_form\<rparr>" "\<lparr>expiresIn = None\<rparr>" Inr "example_env 1700000000"]
    mode_dispatch [of "\<lparr>search_token = Some (NotCompact ''abc''), search_key = Some ''abc'',
        formData = Inl TypeError\<rparr>" "\<lparr>expiresIn = None\<rparr>" Inr "example_env 1700000000"]
  by (simp add: truthy_def truthy_jwt_def jwtVerify_def)

text \<open>
  C4 as stated, with "present" read as "given in the URL", fails. The request
  \<^verbatim>\<open>?token=&key=abc\<close> has both parameters, and \<^verbatim>\<open>authenticate\<close> does not
  run the Verifier branch but fails with the missing-token error. The request
  \<^verbatim>\<open>?token=\<close> has exactly one of the two, and \<^verbatim>\<open>authenticate\<close> does
  not fail but runs the Issuer branch.
\<close>

theorem mode_dispatch_counterexample:
  "search_token \<lparr>search_token = Some (NotCompact ''''), search_key = Some ''abc'',
       formData = Inl TypeError\<rparr> \<noteq> None
   \<and> search_key \<lparr>search_token = Some (NotCompact ''''), search_key = Some ''abc'',
       formData = Inl TypeError\<rparr> \<noteq> None
   \<and> authenticate \<lparr>expiresIn = None\<rparr> Inr (example_env 1700000000)
        \<lparr>search_token = Some (NotCompact ''''), search_key = Some ''abc'',
         formData = Inl TypeError\<rparr> =
      Inl (Error ''Attempted to validate, but missing token in URL.'')
   \<and> authenticate \<lparr>expiresIn = None\<rparr> Inr (example_env 1700000000)
        \<lparr>search_token = Some (NotCompact ''''), search_key = None,
         formData = Inr example_form\<rparr> =
      Inr (GenerateOptions example_form
             (issued_token \<lparr>expiresIn = None\<rparr> (example_env 1700000000) example_form)
             (issued_key (example_env 1700000000)))"
  by (simp add: authenticate_def Let_def truthy_def truthy_jwt_def sign_issued issued_key_def)

subsection \<open>C5: key mismatch\<close>

text \<open>
  Claim C5, as the code has it. Let the Issuer have issued a token with key \<open>k\<close>, which
  encodes 32 bytes, and let \<open>k'\<close> be a non-empty key of which the HMAC key differs from
  that of \<open>k\<close>: the bytes that \<open>k'\<close> decodes to (their SHA-256 digest, when they are
  more than 64), filled up with zero bytes to 64, are not the bytes of \<open>k\<close> filled up
  with zero bytes to 64. Every \<open>k'\<close> that encodes 32 bytes other than those of \<open>k\<close>
  is such a key (lemma \<open>distinct_32_byte_keys\<close>). Then verifying the token with
  \<open>k'\<close> fails, whatever the callback is, with jose's
  \<^verbatim>\<open>JWSSignatureVerificationFailed\<close> (or with Web Crypto's
  \<^verbatim>\<open>DataError\<close>, when \<open>k'\<close> decodes to no bytes at all). The HMAC tags of
  different HMAC keys are taken to differ.
\<close>

theorem key_mismatch:
  assumes issued: "authenticate options Inr env request = Inr (GenerateOptions form token key)"
      and nonempty: "key' \<noteq> []"
      and other: "(let b' = Buffer_from_base64url key';
                       k0 = (if length b' \<le> 64 then b' else sha256 b')
                   in k0 @ replicate (64 - length k0) 0) \<noteq>
                  Buffer_from_base64url key @ replicate 32 0"
  shows "authenticate options' verify env'
           \<lparr>search_token = Some token, search_key = Some key', formData = body\<rparr> =
         Inl (if Buffer_from_base64url key' = [] then DataError
              else JWSSignatureVerificationFailed)"
proof -
  note inv = issued_inversion [OF issued]
  have "authenticate options' verify env'
          \<lparr>search_token = Some token, search_key = Some key', formData = body\<rparr> =
        (case jwtVerify (now env') (issued_token options env form) (Buffer_from_base64url key')
                \<lparr>clockTolerance = 10, maxTokenAge = expiresIn_or_default options'\<rparr> of
           Inl e \<Rightarrow> Inl e
         | Inr p \<Rightarrow> verify (ValidateOptions p (issued_token options env form)))"
    by (rule authenticate_redeem) (simp_all add: inv nonempty)
  moreover have "import_hmac_key ''HS256'' (Buffer_from_base64url key') \<noteq>
      import_hmac_key ''HS256'' (randomBytes env 32)"
    unfolding import_issued_key import_hmac_key_HS256 [of "Buffer_from_base64url key'"]
    using other by (simp add: inv Buffer_from_issued_key Let_def split: if_splits)
  ultimately show ?thesis
    by (simp add: jwtVerify_issued)
qed

text \<open>
  The hypotheses of the theorem hold for the example token and the key
  \<^verbatim>\<open>AAAA\<close>.
\<close>

theorem key_mismatch_witness:
  "authenticate \<lparr>expiresIn = None\<rparr> Inr (example_env 1700000000) example_request =
     Inr (GenerateOptions example_form
            (issued_token \<lparr>expiresIn = None\<rparr> (example_env 1700000000) example_form)
            (issued_key (example_env 1700000000)))
   \<and> ''AAAA'' \<noteq> []
   \<and> (let b' = Buffer_from_base64url ''AAAA'';
           k0 = (if length b' \<le> 64 then b' else sha256 b')
       in k0 @ replicate (64 - length k0) 0) \<noteq>
      Buffer_from_base64url (issued_key (example_env 1700000000)) @ replicate 32 0
   \<and> authenticate \<lparr>expiresIn = None\<rparr> Inr (example_env 1700000060)
        \<lparr>search_token =
           Some (issued_token \<lparr>expiresIn = None\<rparr> (example_env 1700000000) example_form),
         search_key = Some ''AAAA'', formData = Inl TypeError\<rparr> =
      Inl JWSSignatureVerificationFailed"
proof -
  let ?o = "\<lparr>expiresIn = None\<rparr>" and ?env = "example_env 1700000000"
  have issued: "authenticate ?o Inr ?env example_request =
      Inr (GenerateOptions example_form (issued_token ?o ?env example_form) (issued_key ?env))"
    by (rule issue_example)
  have nonempty: "''AAAA'' \<noteq> []" by simp
  have decoded: "Buffer_from_base64url ''AAAA'' = [0, 0, 0]" by code_simp
  have "hd ([0, 0, 0] @ replicate 61 (0::byte)) \<noteq> hd (replicate 32 255 @ replicate 32 (0::byte))"
    by simp
  then have "[0, 0, 0] @ replicate 61 (0::byte) \<noteq> replicate 32 255 @ replicate 32 (0::byte)"
    by metis
  then have other: "(let b' = Buffer_from_base64url ''AAAA'';
           k0 = (if length b' \<le> 64 then b' else sha256 b')
       in k0 @ replicate (64 - length k0) 0) \<noteq>
      Buffer_from_base64url (issued_key ?env) @ replicate 32 0"
    by (simp add: decoded Buffer_from_issued_key example_key_bytes)
  from key_mismatch [OF issued nonempty other, of ?o Inr "example_env 1700000060" "Inl TypeError"]
    issued other decoded
  show ?thesis by simp
qed

text \<open>
  C5 as stated, for every key string \<open>k'\<close> other than \<open>k\<close>, fails twice. The key
  \<open>k\<close> with the padding character \<^verbatim>\<open>=\<close> appended is another string that
  decodes to the same bytes, and the token verifies with it. The empty key makes
  \<^verbatim>\<open>authenticate\<close> fail in the dispatcher with the missing-key error, which is not
  a verification failure.
\<close>

theorem key_mismatch_counterexample:
  "authenticate \<lparr>expiresIn = Some 2000000000\<rparr> Inr (example_env 1700000000) example_request =
     Inr (GenerateOptions example_form
            (issued_token \<lparr>expiresIn = Some 2000000000\<rparr> (example_env 1700000000) example_form)
            (issued_key (example_env 1700000000)))
   \<and> issued_key (example_env 1700000000) @ ''='' \<noteq> issued_key (example_env 1700000000)
   \<and> authenticate \<lparr>expiresIn = Some 2000000000\<rparr> Inr (example_env 1700000060)
        (redeem_request
           (issued_token \<lparr>expiresIn = Some 2000000000\<rparr> (example_env 1700000000) example_form)
           (issued_key (example_env 1700000000) @ ''='')) =
      Inr (ValidateOptions
            (issued_claims \<lparr>expiresIn = Some 2000000000\<rparr> (example_env 1700000000) example_form)
            (issued_token \<lparr>expiresIn = Some 2000000000\<rparr> (example_env 1700000000) example_form))
   \<and> authenticate \<lparr>expiresIn = Some 2000000000\<rparr> Inr (example_env 1700000060)
        (redeem_request
           (issued_token \<lparr>expiresIn = Some 2000000000\<rparr> (example_env 1700000000) example_form)
           []) =
      Inl (Error ''Attempted to validate, but missing key in URL.'')"
proof -
  let ?o = "\<lparr>expiresIn = Some 2000000000\<rparr>" and ?env = "example_env 1700000000"
  let ?t = "issued_token ?o ?env example_form"
  have issued: "authenticate ?o Inr ?env example_request =
      Inr (GenerateOptions example_form ?t (issued_key ?env))"
    by (rule issue_example)
  have valid: "validateClaimsSet (now (example_env 1700000060)) (issued_claims ?o ?env example_form)
        \<lparr>clockTolerance = 10, maxTokenAge = expiresIn_or_default ?o\<rparr> =
      Inr (issued_claims ?o ?env example_form)"
    by (simp add: example_defs)
  have "authenticate ?o Inr (example_env 1700000060)
          (redeem_request ?t (issued_key ?env @ ''='')) =
        (case jwtVerify (now (example_env 1700000060)) ?t
                (Buffer_from_base64url (issued_key ?env @ ''=''))
                \<lparr>clockTolerance = 10, maxTokenAge = expiresIn_or_default ?o\<rparr> of
           Inl e \<Rightarrow> Inl e
         | Inr p \<Rightarrow> Inr (ValidateOptions p ?t))"
    by (rule authenticate_redeem) (simp_all add: redeem_request_def)
  moreover have "Buffer_from_base64url (issued_key ?env @ ''='') = randomBytes ?env 32"
    by (simp add: issued_key_def Buffer_from_toString_padded)
  ultimately have padded: "authenticate ?o Inr (example_env 1700000060)
      (redeem_request ?t (issued_key ?env @ ''='')) =
      Inr (ValidateOptions (issued_claims ?o ?env example_form) ?t)"
    by (simp add: jwtVerify_issued randomBytes_32_nonempty valid)
  have empty: "authenticate ?o Inr (example_env 1700000060) (redeem_request ?t []) =
      Inl (Error ''Attempted to validate, but missing key in URL.'')"
    by (simp add: authenticate_def Let_def redeem_request_def truthy_def issued_token_def
        truthy_jwt_Compact)
  from issued padded empty show ?thesis by simp
qed

subsection \<open>C6: verification failures\<close>

text \<open>
  Claim C6, as the code has it. \<^verbatim>\<open>authenticate\<close> has no handler around
  \<^verbatim>\<open>jwtVerify\<close>: when verification fails, \<^verbatim>\<open>authenticate\<close> fails with
  the very error jose raised, whatever the callback is.
\<close>

theorem verification_failure_propagates:
  assumes "truthy_jwt (search_token request)" and "truthy (search_key request)"
      and "jwtVerify (now env) (the (search_token request))
             (Buffer_from_base64url (the (search_key request)))
             \<lparr>clockTolerance = 10, maxTokenAge = expiresIn_or_default options\<rparr> = Inl e"
  shows "authenticate options verify env request = Inl e"
  using assms by (simp add: authenticate_verifier)

text \<open>
  A Verifier call in which \<^verbatim>\<open>jwtVerify\<close> fails: the token \<^verbatim>\<open>abc\<close>.
\<close>

theorem verification_failure_propagates_witness:
  "truthy_jwt (search_token (redeem_request (NotCompact ''abc'') ''AAAA''))
   \<and> truthy (search_key (redeem_request (NotCompact ''abc'') ''AAAA''))
   \<and> jwtVerify (now (example_env 1700000000))
        (the (search_token (redeem_request (NotCompact ''abc'') ''AAAA'')))
        (Buffer_from_base64url (the (search_key (redeem_request (NotCompact ''abc'') ''AAAA''))))
        \<lparr>clockTolerance = 10, maxTokenAge = expiresIn_or_default \<lparr>expiresIn = None\<rparr>\<rparr> =
      Inl JWSInvalid
   \<and> authenticate \<lparr>expiresIn = None\<rparr> Inr (example_env 1700000000)
        (redeem_request (NotCompact ''abc'') ''AAAA'') = Inl JWSInvalid"
proof -
  let ?r = "redeem_request (NotCompact ''abc'') ''AAAA''"
  have t: "truthy_jwt (search_token ?r)" by (simp add: redeem_request_def truthy_jwt_def)
  have k: "truthy (search_key ?r)" by (simp add: redeem_request_def truthy_def)
  have v: "jwtVerify (now (example_env 1700000000)) (the (search_token ?r))
        (Buffer_from_base64url (the (search_key ?r)))
        \<lparr>clockTolerance = 10, maxTokenAge = expiresIn_or_default \<lparr>expiresIn = None\<rparr>\<rparr> =
      Inl JWSInvalid"
    by (simp add: redeem_request_def jwtVerify_def)
  from verification_failure_propagates [OF t k v, of Inr] t k v show ?thesis by simp
qed

text \<open>
  C6 as stated, one undifferentiated error, fails: 400 seconds after issue the example
  token fails with \<^verbatim>\<open>JWTExpired\<close> under its own key, with
  \<^verbatim>\<open>JWSSignatureVerificationFailed\<close> under the key \<^verbatim>\<open>AAAA\<close>, and the
  token \<^verbatim>\<open>abc\<close> fails with \<^verbatim>\<open>JWSInvalid\<close>.
\<close>

theorem uniform_failure_counterexample:
  "authenticate \<lparr>expiresIn = None\<rparr> Inr (example_env 1700000400)
     (redeem_request
        (issued_token \<lparr>expiresIn = None\<rparr> (example_env 1700000000) example_form)
        (issued_key (example_env 1700000000))) =
     Inl (JWTExpired ''exp'' ''check_failed'')
   \<and> authenticate \<lparr>expiresIn = None\<rparr> Inr (example_env 1700000400)
       (redeem_request
          (issued_token \<lparr>expiresIn = None\<rparr> (example_env 1700000000) example_form)
          ''AAAA'') =
     Inl JWSSignatureVerificationFailed
   \<and> authenticate \<lparr>expiresIn = None\<rparr> Inr (example_env 1700000400)
       (redeem_request (NotCompact ''abc'') (issued_key (example_env 1700000000))) =
     Inl JWSInvalid"
proof -
  let ?o = "\<lparr>expiresIn = None\<rparr>" and ?env = "example_env 1700000000"
  let ?t = "issued_token ?o ?env example_form"
  have "validateClaimsSet (now (example_env 1700000400)) (issued_claims ?o ?env example_form)
        \<lparr>clockTolerance = 10, maxTokenAge = expiresIn_or_default ?o\<rparr> =
      Inl (JWTExpired ''exp'' ''check_failed'')"
    by (simp add: example_defs)
  then have expired: "authenticate ?o Inr (example_env 1700000400)
      (redeem_request ?t (issued_key ?env)) = Inl (JWTExpired ''exp'' ''check_failed'')"
    by (simp add: redeem_example)
  have "authenticate ?o Inr (example_env 1700000400) (redeem_request ?t ''AAAA'') =
        (case jwtVerify (now (example_env 1700000400)) ?t (Buffer_from_base64url ''AAAA'')
                \<lparr>clockTolerance = 10, maxTokenAge = expiresIn_or_default ?o\<rparr> of
           Inl e \<Rightarrow> Inl e
         | Inr p \<Rightarrow> Inr (ValidateOptions p ?t))"
    by (rule authenticate_redeem) (simp_all add: redeem_request_def)
  moreover have "Buffer_from_base64url ''AAAA'' \<noteq> []" by code_simp
  moreover note wrong_key_example [of 1700000000]
  ultimately have wrong: "authenticate ?o Inr (example_env 1700000400)
      (redeem_request ?t ''AAAA'') = Inl JWSSignatureVerificationFailed"
    by (simp add: jwtVerify_issued Buffer_from_issued_key)
  have malformed: "authenticate ?o Inr (example_env 1700000400)
      (redeem_request (NotCompact ''abc'') (issued_key ?env)) = Inl JWSInvalid"
    using truthy_issued_key [of ?env]
    by (simp add: authenticate_verifier redeem_request_def truthy_jwt_def jwtVerify_def)
  from expired wrong malformed show ?thesis by simp
qed

subsection \<open>C7: the validation outcome\<close>

text \<open>
  Claim C7, as the code has it. When a Verifier call reaches the callback, the token it
  passes is the token of the request, and the form it passes is the whole claims set of
  that token, which always holds the timing claim \<^verbatim>\<open>iat\<close>.
\<close>

theorem validation_outcome:
  assumes "truthy_jwt (search_token request)" and "truthy (search_key request)"
      and "authenticate options Inr env request = Inr outcome"
  shows "\<exists>h p s iat. search_token request = Some (Compact h p s)
           \<and> outcome = ValidateOptions p (Compact h p s)
           \<and> p ''iat'' = Some (JNumber iat)"
proof -
  from validated_inversion [OF assms] obtain p where
    v: "jwtVerify (now env) (the (search_token request))
          (Buffer_from_base64url (the (search_key request)))
          \<lparr>clockTolerance = 10, maxTokenAge = expiresIn_or_default options\<rparr> = Inr p"
    and o: "outcome = ValidateOptions p (the (search_token request))"
    by blast
  from jwtVerify_Inr [OF v] obtain h iat where
    "the (search_token request) = Compact h p (HMAC (alg h) (import_hmac_key (alg h)
        (Buffer_from_base64url (the (search_key request)))) h p)"
    and "p ''iat'' = Some (JNumber iat)"
    by blast
  moreover from assms(1) have "search_token request = Some (the (search_token request))"
    by (cases "search_token request") (simp_all add: truthy_jwt_def)
  ultimately show ?thesis using o by metis
qed

text \<open>
  A Verifier call that reaches the callback: the example token, issued with
  \<^verbatim>\<open>expiresIn\<close> 1800000000, redeemed two minutes later.
\<close>

theorem validation_outcome_witness:
  "truthy_jwt (search_token (redeem_request
       (issued_token \<lparr>expiresIn = Some 1800000000\<rparr> (example_env 1700000000) example_form)
       (issued_key (example_env 1700000000))))
   \<and> truthy (search_key (redeem_request
       (issued_token \<lparr>expiresIn = Some 1800000000\<rparr> (example_env 1700000000) example_form)
       (issued_key (example_env 1700000000))))
   \<and> authenticate \<lparr>expiresIn = Some 1800000000\<rparr> Inr (example_env 1700000120)
        (redeem_request
           (issued_token \<lparr>expiresIn = Some 1800000000\<rparr> (example_env 1700000000) example_form)
           (issued_key (example_env 1700000000))) =
      Inr (ValidateOptions
            (issued_claims \<lparr>expiresIn = Some 1800000000\<rparr> (example_env 1700000000) example_form)
            (issued_token \<lparr>expiresIn = Some 1800000000\<rparr> (example_env 1700000000) example_form))
   \<and> (\<exists>h p s iat.
        search_token (redeem_request
          (issued_token \<lparr>expiresIn = Some 1800000000\<rparr> (example_env 1700000000) example_form)
          (issued_key (example_env 1700000000))) = Some (Compact h p s)
        \<and> ValidateOptions
            (issued_claims \<lparr>expiresIn = Some 1800000000\<rparr> (example_env 1700000000) example_form)
            (issued_token \<lparr>expiresIn = Some 1800000000\<rparr> (example_env 1700000000) example_form)
          = ValidateOptions p (Compact h p s)
        \<and> p ''iat'' = Some (JNumber iat))"
proof -
  let ?o = "\<lparr>expiresIn = Some 1800000000\<rparr>" and ?env = "example_env 1700000000"
  let ?r = "redeem_request (issued_token ?o ?env example_form) (issued_key ?env)"
  have t: "truthy_jwt (search_token ?r)"
    by (simp add: redeem_request_def issued_token_def truthy_jwt_Compact)
  have k: "truthy (search_key ?r)"
    by (simp add: redeem_request_def truthy_issued_key)
  have "validateClaimsSet (now (example_env 1700000120)) (issued_claims ?o ?env example_form)
        \<lparr>clockTolerance = 10, maxTokenAge = expiresIn_or_default ?o\<rparr> =
      Inr (issued_claims ?o ?env example_form)"
    by (simp add: example_defs)
  then have r: "authenticate ?o Inr (example_env 1700000120) ?r =
      Inr (ValidateOptions (issued_claims ?o ?env example_form) (issued_token ?o ?env example_form))"
    by (simp add: redeem_example)
  from validation_outcome [OF t k r] t k r show ?thesis by simp
qed

text \<open>
  C7 as stated, with the timing claims excluded, fails on that call: the form given to
  the callback holds \<^verbatim>\<open>iat\<close> and \<^verbatim>\<open>exp\<close> beside the form's own
  \<^verbatim>\<open>email\<close>.
\<close>

theorem validation_outcome_counterexample:
  "authenticate \<lparr>expiresIn = Some 1800000000\<rparr> Inr (example_env 1700000120)
     (redeem_request
        (issued_token \<lparr>expiresIn = Some 1800000000\<rparr> (example_env 1700000000) example_form)
        (issued_key (example_env 1700000000))) =
     Inr (ValidateOptions
           (issued_claims \<lparr>expiresIn = Some 1800000000\<rparr> (example_env 1700000000) example_form)
           (issued_token \<lparr>expiresIn = Some 1800000000\<rparr> (example_env 1700000000) example_form))
   \<and> issued_claims \<lparr>expiresIn = Some 1800000000\<rparr> (example_env 1700000000) example_form ''iat''
       = Some (JNumber 1700000000)
   \<and> issued_claims \<lparr>expiresIn = Some 1800000000\<rparr> (example_env 1700000000) example_form ''exp''
       = Some (JNumber 1800000000)
   \<and> issued_claims \<lparr>expiresIn = Some 1800000000\<rparr> (example_env 1700000000) example_form ''email''
       = Some (JString ''a@b.com'')"
proof -
  let ?o = "\<lparr>expiresIn = Some 1800000000\<rparr>" and ?env = "example_env 1700000000"
  have "validateClaimsSet (now (example_env 1700000120)) (issued_claims ?o ?env example_form)
        \<lparr>clockTolerance = 10, maxTokenAge = expiresIn_or_default ?o\<rparr> =
      Inr (issued_claims ?o ?env example_form)"
    by (simp add: example_defs)
  then have "authenticate ?o Inr (example_env 1700000120)
      (redeem_request (issued_token ?o ?env example_form) (issued_key ?env)) =
      Inr (ValidateOptions (issued_claims ?o ?env example_form) (issued_token ?o ?env example_form))"
    by (simp add: redeem_example)
  then show ?thesis by (simp add: example_defs)
qed

subsection \<open>C8: the issued token\<close>

text \<open>
  Claim C8 says that the issued token expires \<^verbatim>\<open>expiresIn\<close> seconds after the
  time of issue. The code on the example submission with \<^verbatim>\<open>expiresIn\<close> unset, at
  1700000000: the key has 32 bytes and the payload has the form's field and
  \<^verbatim>\<open>iat\<close> = 1700000000, but \<^verbatim>\<open>exp\<close> is 300, not 1700000300.
\<close>

theorem issuer_token_failing_input:
  "authenticate \<lparr>expiresIn = None\<rparr> Inr (example_env 1700000000) example_request =
     Inr (GenerateOptions [(''email'', ''a@b.com'')]
            (Compact \<lparr>alg = ''HS256'', typ' = Some ''JWT''\<rparr>
               [''email'' \<mapsto> JString ''a@b.com'', ''iat'' \<mapsto> JNumber 1700000000,
                ''exp'' \<mapsto> JNumber 300]
               (HMAC ''HS256'' (import_hmac_key ''HS256'' (replicate 32 255))
                  \<lparr>alg = ''HS256'', typ' = Some ''JWT''\<rparr>
                  [''email'' \<mapsto> JString ''a@b.com'', ''iat'' \<mapsto> JNumber 1700000000,
                   ''exp'' \<mapsto> JNumber 300]))
            (toString_base64url (replicate 32 255)))"
  unfolding issue_example issued_token_def issued_key_def example_claims example_key_bytes
  by (simp add: expiresIn_or_default_def example_form_def)

subsection \<open>C9: empty query parameters\<close>

text \<open>
  Claim C9: a query parameter given with an empty value is treated as absent. For every
  request, making the token (or the key) empty gives the result of leaving it out;
  \<^verbatim>\<open>?token=abc&key=\<close> fails with the missing-key error, and
  \<^verbatim>\<open>?token=&key=\<close> runs the Issuer branch.
\<close>

theorem empty_parameter_is_absent:
  "authenticate options verify env (request\<lparr>search_token := Some (NotCompact [])\<rparr>) =
     authenticate options verify env (request\<lparr>search_token := None\<rparr>)
   \<and> authenticate options verify env (request\<lparr>search_key := Some []\<rparr>) =
     authenticate options verify env (request\<lparr>search_key := None\<rparr>)
   \<and> authenticate options verify env
       \<lparr>search_token = Some (NotCompact ''abc''), search_key = Some [], formData = body\<rparr> =
     Inl (Error ''Attempted to validate, but missing key in URL.'')
   \<and> authenticate options verify env
       \<lparr>search_token = Some (NotCompact []), search_key = Some [], formData = body\<rparr> =
     (case body of
        Inl e \<Rightarrow> Inl e
      | Inr form \<Rightarrow>
          verify (GenerateOptions form (issued_token options env form) (issued_key env)))"
  by (simp add: authenticate_def Let_def truthy_def truthy_jwt_def sign_issued issued_key_def
      split: sum.split)

subsection \<open>C10: \<^verbatim>\<open>expiresIn\<close> of zero\<close>

text \<open>
  Claim C10 says that an \<^verbatim>\<open>expiresIn\<close> of 0 is treated as unset and that the
  tokens then live for 300 seconds. The code: every call with \<^verbatim>\<open>expiresIn\<close> 0
  gives the result of the same call with \<^verbatim>\<open>expiresIn\<close> unset; but the example
  token issued at 1700000000 with \<^verbatim>\<open>expiresIn\<close> 0 has \<^verbatim>\<open>exp\<close> = 300,
  and one second after issue jose rejects it as expired.
\<close>

theorem expiresIn_zero_failing_input:
  "authenticate (options\<lparr>expiresIn := Some 0\<rparr>) verify env request =
     authenticate (options\<lparr>expiresIn := None\<rparr>) verify env request
   \<and> issued_claims \<lparr>expiresIn = Some 0\<rparr> (example_env 1700000000) example_form ''exp'' =
       Some (JNumber 300)
   \<and> authenticate \<lparr>expiresIn = Some 0\<rparr> Inr (example_env 1700000000) example_request =
     Inr (GenerateOptions example_form
            (issued_token \<lparr>expiresIn = Some 0\<rparr> (example_env 1700000000) example_form)
            (issued_key (example_env 1700000000)))
   \<and> authenticate \<lparr>expiresIn = Some 0\<rparr> Inr (example_env 1700000001)
        (redeem_request
           (issued_token \<lparr>expiresIn = Some 0\<rparr> (example_env 1700000000) example_form)
           (issued_key (example_env 1700000000))) =
     Inl (JWTExpired ''exp'' ''check_failed'')"
proof -
  have default: "expiresIn_or_default (options\<lparr>expiresIn := Some 0\<rparr>) =
      expiresIn_or_default (options\<lparr>expiresIn := None\<rparr>)"
    by (simp add: expiresIn_or_default_def)
  have same: "authenticate (options\<lparr>expiresIn := Some 0\<rparr>) verify env request =
      authenticate (options\<lparr>expiresIn := None\<rparr>) verify env request"
    unfolding authenticate_def default by (rule refl)
  have exp: "issued_claims \<lparr>expiresIn = Some 0\<rparr> (example_env 1700000000) example_form ''exp'' =
      Some (JNumber 300)"
    by (simp add: example_defs)
  have "validateClaimsSet (now (example_env 1700000001))
          (issued_claims \<lparr>expiresIn = Some 0\<rparr> (example_env 1700000000) example_form)
          \<lparr>clockTolerance = 10, maxTokenAge = expiresIn_or_default \<lparr>expiresIn = Some 0\<rparr>\<rparr> =
        Inl (JWTExpired ''exp'' ''check_failed'')"
    by (simp add: example_defs)
  then have "authenticate \<lparr>expiresIn = Some 0\<rparr> Inr (example_env 1700000001)
        (redeem_request
           (issued_token \<lparr>expiresIn = Some 0\<rparr> (example_env 1700000000) example_form)
           (issued_key (example_env 1700000000))) =
     Inl (JWTExpired ''exp'' ''check_failed'')"
    by (simp add: redeem_example)
  with same exp show ?thesis by (simp add: issue_example)
qed

end
